theory Spec2Isabelle
  imports Main
begin

section \<open>Positions, ranges and edits\<close>

text \<open>
  The protocol types used by \<^verbatim>\<open>src/snippets/snippet.ts\<close>. Lines and characters are
  JavaScript numbers holding integers; an anchor shifted by a negative delta may become
  negative, so both are modelled as \<open>int\<close>. Where the code adds an offset or a length to a
  position the model writes the sum, which is the code's sum as long as it stays below
  \<open>2^53\<close> in magnitude; the shift of the anchor, whose deltas are arbitrary, is modelled
  with the rounding of JavaScript's numbers (\<open>number_add\<close> below).
\<close>

record Position =
  line :: int
  character :: int

record Range =
  r_start :: Position
  r_end :: Position

record TextEdit =
  e_range :: Range
  e_newText :: string

text \<open>
  JavaScript's \<^verbatim>\<open>+\<close> on two numbers that hold integers. A number is an IEEE double: every
  integer of magnitude up to \<open>2^53\<close> is one, and beyond that only the multiples of \<open>2^e\<close>
  that have 53 significant bits. The sum is the exact sum rounded to the nearest double,
  a tie going to the even significand. \<open>ulp_exponent m\<close> is the \<open>e\<close> for the magnitude
  \<open>m\<close>. Sums beyond the largest double (about \<open>1.8e308\<close>), which JavaScript gives as
  \<^verbatim>\<open>Infinity\<close>, are not modelled.
\<close>

function ulp_exponent :: "int \<Rightarrow> nat" where
  "ulp_exponent m = (if m < 2 ^ 53 then 0 else Suc (ulp_exponent (m div 2)))"
  by pat_completeness auto
termination
  by (relation "measure nat") auto

declare ulp_exponent.simps [simp del]

definition round_double :: "int \<Rightarrow> int" where
  "round_double x =
     (let m = \<bar>x\<bar>;
          e = ulp_exponent m;
          q = m div 2 ^ e;
          r = m mod 2 ^ e;
          q' = (if 2 * r > 2 ^ e \<or> (2 * r = 2 ^ e \<and> odd q) then q + 1 else q)
      in sgn x * (q' * 2 ^ e))"

definition number_add :: "int \<Rightarrow> int \<Rightarrow> int" where
  "number_add a b = round_double (a + b)"

text \<open>
  \<^verbatim>\<open>String.prototype.slice(begin, end)\<close>: a negative argument counts from the end of the
  string, both arguments are clamped to the string, and an empty span gives the empty string.
  \<open>slice_from\<close> is the call with one argument (\<open>end\<close> is then the length).
\<close>

definition slice :: "string \<Rightarrow> int \<Rightarrow> int \<Rightarrow> string" where
  "slice s b e =
     (let len = int (length s);
          k = (if b < 0 then max (len + b) 0 else min b len);
          final = (if e < 0 then max (len + e) 0 else min e len)
      in take (nat (final - k)) (drop (nat k) s))"

definition slice_from :: "string \<Rightarrow> int \<Rightarrow> string" where
  "slice_from s b = slice s b (int (length s))"

section \<open>The template tree and the other collaborators\<close>

text \<open>
  What \<^verbatim>\<open>update\<close> reads from one placeholder node of the tree: \<^verbatim>\<open>p.index\<close>,
  \<^verbatim>\<open>p.toString()\<close>, \<^verbatim>\<open>p.transform != null\<close>, \<^verbatim>\<open>p.isFinalTabstop\<close> and the values of
  \<^verbatim>\<open>p.choice.options\<close> (\<open>None\<close> when the node has no choice).
\<close>

record Marker =
  m_index :: int
  m_toString :: string
  m_transform :: bool
  m_isFinalTabstop :: bool
  m_choice :: "string list option"

text \<open>
  \<^verbatim>\<open>snippet.ts\<close> imports the parser (\<^verbatim>\<open>./parser\<close>), \<^verbatim>\<open>getChangedPosition\<close>
  (\<^verbatim>\<open>../util/position\<close>) and \<^verbatim>\<open>TextDocument\<close> (the protocol library); none of them is
  among the sources. Every function below takes them as a parameter, a record of the
  operations that \<^verbatim>\<open>snippet.ts\<close> calls, over an arbitrary type \<open>'t\<close> of trees. A node handed
  to \<^verbatim>\<open>snippet.offset(p)\<close> is named by its place in \<^verbatim>\<open>snippet.placeholders\<close>. The two
  mutating operations of the tree return the new tree beside their result.
\<close>

record 't env =
  parse :: "string \<Rightarrow> bool \<Rightarrow> 't"
  resolveVariables :: "'t \<Rightarrow> (string \<Rightarrow> string option) \<Rightarrow> 't"
  tm_placeholders :: "'t \<Rightarrow> Marker list"
  tm_toString :: "'t \<Rightarrow> string"
  tm_offset :: "'t \<Rightarrow> nat \<Rightarrow> int"
  maxIndexNumber :: "'t \<Rightarrow> int"
  minIndexNumber :: "'t \<Rightarrow> int"
  tm_updatePlaceholder :: "'t \<Rightarrow> nat \<Rightarrow> string \<Rightarrow> 't \<times> string"
  tm_insertSnippet :: "'t \<Rightarrow> string \<Rightarrow> nat \<Rightarrow> int \<Rightarrow> bool \<Rightarrow> 't \<times> int"
  positionAt :: "string \<Rightarrow> int \<Rightarrow> Position"
  getChangedPosition :: "Position \<Rightarrow> TextEdit \<Rightarrow> Position"

section \<open>The snippet model\<close>

text \<open>
  \<^verbatim>\<open>CocSnippetPlaceholder\<close>, without the non-enumerable back reference \<^verbatim>\<open>snippet\<close>.
\<close>

record CocSnippetPlaceholder =
  p_index :: int
  p_id :: nat
  p_line :: int
  p_range :: Range
  p_value :: string
  p_isFinalTabstop :: bool
  p_transform :: bool
  p_choice :: "string list option"

text \<open>
  The mutable state of a \<^verbatim>\<open>CocSnippet\<close>: the anchor \<^verbatim>\<open>position\<close>, the tree
  \<^verbatim>\<open>tmSnippet\<close> and the derived list \<^verbatim>\<open>_placeholders\<close>.
\<close>

record 't CocSnippet =
  position :: Position
  tmSnippet :: 't
  placeholders :: "CocSnippetPlaceholder list"

text \<open>The callback of \<^verbatim>\<open>placeholders.map\<close> in \<^verbatim>\<open>update\<close> (lines 166-197).\<close>

definition update_view ::
  "'t env \<Rightarrow> 't \<Rightarrow> Position \<Rightarrow> string \<Rightarrow> nat \<times> Marker \<Rightarrow> CocSnippetPlaceholder" where
  "update_view env snippet anchor document ip =
     (let idx = fst ip; p = snd ip;
          offset = tm_offset env snippet idx;
          pos = positionAt env document offset;
          start = \<lparr>line = line anchor + line pos,
                   character = (if line pos = 0 then character anchor + character pos
                                else character pos)\<rparr>;
          val = m_toString p
      in \<lparr>p_index = m_index p,
          p_id = idx,
          p_line = line start,
          p_range = \<lparr>r_start = start,
                      r_end = \<lparr>line = line start,
                               character = character start + int (length val)\<rparr>\<rparr>,
          p_value = val,
          p_isFinalTabstop = m_isFinalTabstop p,
          p_transform = m_transform p,
          p_choice = (case m_choice p of
                        None \<Rightarrow> None
                      | Some options \<Rightarrow> (if options \<noteq> [] then Some options else None))\<rparr>)"

definition update :: "'t env \<Rightarrow> 't CocSnippet \<Rightarrow> 't CocSnippet" where
  "update env s =
     (let snippet = tmSnippet s;
          document = tm_toString env snippet
      in s\<lparr>placeholders :=
             map (update_view env snippet (position s) document)
                 (enumerate 0 (tm_placeholders env snippet))\<rparr>)"

text \<open>
  The constructor: parse (with a final tabstop inserted), resolve the variables when a
  resolver is given, derive the views.
\<close>

definition CocSnippet_new ::
  "'t env \<Rightarrow> string \<Rightarrow> Position \<Rightarrow> (string \<Rightarrow> string option) option \<Rightarrow> 't CocSnippet" where
  "CocSnippet_new env snippetString pos variableResolver =
     (let snippet = parse env snippetString True;
          snippet' = (case variableResolver of
                        None \<Rightarrow> snippet
                      | Some r \<Rightarrow> resolveVariables env snippet r)
      in update env \<lparr>position = pos, tmSnippet = snippet', placeholders = []\<rparr>)"

definition adjustPosition :: "'t env \<Rightarrow> 't CocSnippet \<Rightarrow> int \<Rightarrow> int \<Rightarrow> 't CocSnippet" where
  "adjustPosition env s characterCount lineCount =
     update env (s\<lparr>position := \<lparr>line = number_add (line (position s)) lineCount,
                                 character = number_add (character (position s)) characterCount\<rparr>\<rparr>)"

definition toString :: "'t env \<Rightarrow> 't CocSnippet \<Rightarrow> string" where
  "toString env s = tm_toString env (tmSnippet s)"

text \<open>The getter \<^verbatim>\<open>range\<close>.\<close>

definition snippet_range :: "'t env \<Rightarrow> 't CocSnippet \<Rightarrow> Range" where
  "snippet_range env s =
     (let content = toString env s;
          pos = positionAt env content (int (length content))
      in \<lparr>r_start = position s,
          r_end = \<lparr>line = line (position s) + line pos,
                   character = character (position s) + character pos\<rparr>\<rparr>)"

text \<open>\<^verbatim>\<open>adjustTextEdit\<close> returns the new state and the boolean.\<close>

definition adjustTextEdit :: "'t env \<Rightarrow> 't CocSnippet \<Rightarrow> TextEdit \<Rightarrow> 't CocSnippet \<times> bool" where
  "adjustTextEdit env s edit =
     (let start = r_start (snippet_range env s);
          changed = getChangedPosition env start edit
      in if line changed = 0 \<and> character changed = 0 then (s, False)
         else (adjustPosition env s (character changed) (line changed), True))"

definition isPlainText :: "'t CocSnippet \<Rightarrow> bool" where
  "isPlainText s = list_all p_isFinalTabstop (placeholders s)"


definition getPlaceholder :: "'t CocSnippet \<Rightarrow> int \<Rightarrow> CocSnippetPlaceholder option" where
  "getPlaceholder s index =
     (let ps = filter (\<lambda>o'. p_index o' = index) (placeholders s);
          filtered = filter (\<lambda>o'. \<not> p_transform o') ps
      in case filtered of
           x # _ \<Rightarrow> Some x
         | [] \<Rightarrow> (case ps of [] \<Rightarrow> None | y # _ \<Rightarrow> Some y))"

definition firstPlaceholder :: "'t env \<Rightarrow> 't CocSnippet \<Rightarrow> CocSnippetPlaceholder option" where
  "firstPlaceholder env s = getPlaceholder s (minIndexNumber env (tmSnippet s))"

definition lastPlaceholder :: "'t env \<Rightarrow> 't CocSnippet \<Rightarrow> CocSnippetPlaceholder option" where
  "lastPlaceholder env s = getPlaceholder s (maxIndexNumber env (tmSnippet s))"

definition finalPlaceholder :: "'t CocSnippet \<Rightarrow> CocSnippetPlaceholder option" where
  "finalPlaceholder s = find p_isFinalTabstop (placeholders s)"

text \<open>
  \<^verbatim>\<open>getPrevPlaceholder\<close> and \<^verbatim>\<open>getNextPlaceholder\<close> call themselves with no bound of
  their own (a negative index, or one above the maximum, never reaches the base case), so
  the model counts the calls: the first argument is the number of nested calls allowed,
  and the result is \<open>None\<close> when that many calls did not reach a \<^verbatim>\<open>return\<close>. The value
  returned is \<open>Some r\<close>, with \<open>r = None\<close> for \<^verbatim>\<open>undefined\<close>.
\<close>

fun getPrevPlaceholder ::
  "'t env \<Rightarrow> nat \<Rightarrow> 't CocSnippet \<Rightarrow> int \<Rightarrow> CocSnippetPlaceholder option option" where
  "getPrevPlaceholder env 0 s index = None"
| "getPrevPlaceholder env (Suc n) s index =
     (if index = 0 then Some (lastPlaceholder env s)
      else case getPlaceholder s (index - 1) of
             None \<Rightarrow> getPrevPlaceholder env n s (index - 1)
           | Some prev \<Rightarrow> Some (Some prev))"

fun getNextPlaceholder ::
  "'t env \<Rightarrow> nat \<Rightarrow> 't CocSnippet \<Rightarrow> int \<Rightarrow> CocSnippetPlaceholder option option" where
  "getNextPlaceholder env 0 s index = None"
| "getNextPlaceholder env (Suc n) s index =
     (let max = maxIndexNumber env (tmSnippet s)
      in if index = max then Some (finalPlaceholder s)
         else case getPlaceholder s (index + 1) of
                None \<Rightarrow> getNextPlaceholder env n s (index + 1)
              | Some next \<Rightarrow> Some (Some next))"

text \<open>
  Modelled from the spec: \<^verbatim>\<open>equals\<close> of \<^verbatim>\<open>../util/object\<close> is not among the sources.
  The spec reads the test as "its start position exactly equals the insertion position":
  equality of the two positions, field by field.
\<close>

definition equals :: "Position \<Rightarrow> Position \<Rightarrow> bool" where
  "equals a b = (line a = line b \<and> character a = character b)"

text \<open>
  \<^verbatim>\<open>this._placeholders[placeholder.id + 1]\<close>: reading an array past its end gives
  \<^verbatim>\<open>undefined\<close>.
\<close>

definition insertSnippet_next ::
  "'t CocSnippet \<Rightarrow> CocSnippetPlaceholder \<Rightarrow> CocSnippetPlaceholder option" where
  "insertSnippet_next s placeholder =
     (if p_id placeholder + 1 < length (placeholders s)
      then Some (placeholders s ! (p_id placeholder + 1)) else None)"

text \<open>The local \<^verbatim>\<open>insertFinal\<close> of \<^verbatim>\<open>insertSnippet\<close> (lines 121-125).\<close>

definition insertSnippet_insertFinal ::
  "'t CocSnippet \<Rightarrow> CocSnippetPlaceholder \<Rightarrow> Position \<Rightarrow> bool" where
  "insertSnippet_insertFinal s placeholder pos =
     (case insertSnippet_next s placeholder of
        None \<Rightarrow> True
      | Some next \<Rightarrow> (if equals (r_start (p_range next)) pos then False else True))"

definition insertSnippet ::
  "'t env \<Rightarrow> 't CocSnippet \<Rightarrow> CocSnippetPlaceholder \<Rightarrow> string \<Rightarrow> Position
     \<Rightarrow> 't CocSnippet \<times> int" where
  "insertSnippet env s placeholder snippet pos =
     (let start = r_start (p_range placeholder);
          offset = character pos - character start;
          insertFinal = insertSnippet_insertFinal s placeholder pos;
          r = tm_insertSnippet env (tmSnippet s) snippet (p_id placeholder) offset insertFinal
      in (update env (s\<lparr>tmSnippet := fst r\<rparr>), snd r))"

definition setPlaceholderValue :: "'t env \<Rightarrow> 't CocSnippet \<Rightarrow> nat \<Rightarrow> string \<Rightarrow> 't CocSnippet" where
  "setPlaceholderValue env s i val =
     update env (s\<lparr>tmSnippet := fst (tm_updatePlaceholder env (tmSnippet s) i val)\<rparr>)"

text \<open>The locals \<^verbatim>\<open>endPart\<close> and \<^verbatim>\<open>newText\<close> of \<^verbatim>\<open>updatePlaceholder\<close> (lines 138-139).\<close>

definition updatePlaceholder_endPart :: "CocSnippetPlaceholder \<Rightarrow> TextEdit \<Rightarrow> string" where
  "updatePlaceholder_endPart placeholder edit =
     (let end = r_end (e_range edit); pRange = p_range placeholder
      in if character (r_end pRange) > character end
         then slice_from (p_value placeholder) (character end - character (r_end pRange))
         else [])"

definition updatePlaceholder_newText :: "CocSnippetPlaceholder \<Rightarrow> TextEdit \<Rightarrow> string" where
  "updatePlaceholder_newText placeholder edit =
     (let start = r_start (e_range edit); pRange = p_range placeholder
      in slice (p_value placeholder) 0 (character start - character (r_start pRange))
         @ e_newText edit @ updatePlaceholder_endPart placeholder edit)"

text \<open>
  One round of \<^verbatim>\<open>placeholders.forEach\<close> (lines 146-155): the tree is mutated, and an edit
  is pushed when the text returned by the tree differs from the view's value.
\<close>

definition updateOthers_step ::
  "'t env \<Rightarrow> string \<Rightarrow> 't \<times> TextEdit list \<Rightarrow> CocSnippetPlaceholder \<Rightarrow> 't \<times> TextEdit list" where
  "updateOthers_step env newText acc p =
     (let r = tm_updatePlaceholder env (fst acc) (p_id p) newText;
          text = snd r
      in (fst r, if text \<noteq> p_value p
                 then snd acc @ [\<lparr>e_range = p_range p, e_newText = text\<rparr>]
                 else snd acc))"

definition updatePlaceholder ::
  "'t env \<Rightarrow> 't CocSnippet \<Rightarrow> CocSnippetPlaceholder \<Rightarrow> TextEdit
     \<Rightarrow> 't CocSnippet \<times> TextEdit list" where
  "updatePlaceholder env s placeholder edit =
     (let newText = updatePlaceholder_newText placeholder edit;
          s1 = setPlaceholderValue env s (p_id placeholder) newText;
          ps = filter (\<lambda>o'. p_index o' = p_index placeholder \<and> p_id o' \<noteq> p_id placeholder)
                 (placeholders s1)
      in if ps = [] then (s1, [])
         else (let r = foldl (updateOthers_step env newText) (tmSnippet s1, []) ps
               in (update env (s1\<lparr>tmSnippet := fst r\<rparr>), snd r)))"

text \<open>
  The states a snippet can be in: the one the constructor builds, and any state one of the
  public mutating methods leaves behind.
\<close>

inductive reachable :: "'t env \<Rightarrow> 't CocSnippet \<Rightarrow> bool" for env :: "'t env" where
  constructed: "reachable env (CocSnippet_new env snippetString pos variableResolver)"
| adjustedPosition: "reachable env s \<Longrightarrow> reachable env (adjustPosition env s characterCount lineCount)"
| adjustedTextEdit: "reachable env s \<Longrightarrow> reachable env (fst (adjustTextEdit env s edit))"
| insertedSnippet:
    "reachable env s \<Longrightarrow> reachable env (fst (insertSnippet env s placeholder snippet pos))"
| updatedPlaceholder:
    "reachable env s \<Longrightarrow> reachable env (fst (updatePlaceholder env s placeholder edit))"

section \<open>A template tree to run the model on\<close>

text \<open>
  Modelled from the spec: the Template Tree (\<^verbatim>\<open>./parser\<close>, not among the sources), as
  section 2 describes it: text and placeholder nodes in document order, each placeholder
  with its tabstop index, its current text, its transform if it has one, the flag of the
  final tabstop and its choice options. The placeholders are not nested. A transform is a
  substitution rule that puts the whole value between two texts (as \<^verbatim>\<open>${1/(.*)/[$1]/}\<close>
  puts it in brackets): the text before and the text after the value.
\<close>

datatype node =
    Text string
  | Tabstop (n_index: int) (n_text: string) (n_transform: "(string \<times> string) option")
      (n_final: bool) (n_choice: "string list option")

type_synonym tree = "node list"

text \<open>Modelled from the spec: the textual rendering of one node.\<close>

fun node_toString :: "node \<Rightarrow> string" where
  "node_toString (Text s) = s"
| "node_toString (Tabstop i s tr f c) = s"

text \<open>Modelled from the spec: what a placeholder node shows to \<^verbatim>\<open>update\<close>.\<close>

fun node_markers :: "node \<Rightarrow> Marker list" where
  "node_markers (Text s) = []"
| "node_markers (Tabstop i s tr f c) =
     [\<lparr>m_index = i, m_toString = s, m_transform = (tr \<noteq> None), m_isFinalTabstop = f,
       m_choice = c\<rparr>]"

text \<open>Modelled from the spec: \<^verbatim>\<open>TextmateSnippet.placeholders\<close>, in document order.\<close>

definition TextmateSnippet_placeholders :: "tree \<Rightarrow> Marker list" where
  "TextmateSnippet_placeholders t = concat (map node_markers t)"

text \<open>Modelled from the spec: \<^verbatim>\<open>TextmateSnippet.toString\<close>, the full rendered text.\<close>

definition TextmateSnippet_toString :: "tree \<Rightarrow> string" where
  "TextmateSnippet_toString t = concat (map node_toString t)"

text \<open>
  Modelled from the spec: \<^verbatim>\<open>TextmateSnippet.offset\<close>, the offset of the placeholder
  numbered \<open>i\<close> within the rendered string (the length of all that is rendered before it).
\<close>

fun TextmateSnippet_offset :: "tree \<Rightarrow> nat \<Rightarrow> int" where
  "TextmateSnippet_offset [] i = 0"
| "TextmateSnippet_offset (Text s # ns) i = int (length s) + TextmateSnippet_offset ns i"
| "TextmateSnippet_offset (Tabstop j s tr f c # ns) 0 = 0"
| "TextmateSnippet_offset (Tabstop j s tr f c # ns) (Suc i) =
     int (length s) + TextmateSnippet_offset ns i"

text \<open>Modelled from the spec: the maximum tabstop index present (0 when there is none).\<close>

definition TextmateSnippet_maxIndexNumber :: "tree \<Rightarrow> int" where
  "TextmateSnippet_maxIndexNumber t = fold max (map m_index (TextmateSnippet_placeholders t)) 0"

text \<open>
  Modelled from the spec: the minimum tabstop index present, the final tabstop left out
  (in the spec's example the first placeholder of \<^verbatim>\<open>foo(${1:bar}, ${2:baz})$0\<close> is
  \<^verbatim>\<open>bar\<close>); 0 when there is none.
\<close>

definition TextmateSnippet_minIndexNumber :: "tree \<Rightarrow> int" where
  "TextmateSnippet_minIndexNumber t =
     (case map m_index (filter (\<lambda>m. \<not> m_isFinalTabstop m) (TextmateSnippet_placeholders t)) of
        [] \<Rightarrow> 0
      | i # is \<Rightarrow> fold min is i)"

text \<open>Modelled from the spec: the text an occurrence takes when \<open>val\<close> is written to it.\<close>

fun transform_resolve :: "(string \<times> string) option \<Rightarrow> string \<Rightarrow> string" where
  "transform_resolve None val = val"
| "transform_resolve (Some (a, b)) val = a @ val @ b"

text \<open>
  Modelled from the spec: \<^verbatim>\<open>TextmateSnippet.updatePlaceholder\<close>, "overwrite one
  occurrence's text": the placeholder numbered \<open>i\<close> takes the text \<open>val\<close>, through its
  transform if it has one, and that text is returned. The other occurrences of the index
  are recomputed by the calls \<^verbatim>\<open>snippet.ts\<close> makes for them, one for each.
\<close>

fun TextmateSnippet_updatePlaceholder :: "tree \<Rightarrow> nat \<Rightarrow> string \<Rightarrow> tree \<times> string" where
  "TextmateSnippet_updatePlaceholder [] i val = ([], [])"
| "TextmateSnippet_updatePlaceholder (Text s # ns) i val =
     (let r = TextmateSnippet_updatePlaceholder ns i val in (Text s # fst r, snd r))"
| "TextmateSnippet_updatePlaceholder (Tabstop j s tr f c # ns) 0 val =
     (Tabstop j (transform_resolve tr val) tr f c # ns, transform_resolve tr val)"
| "TextmateSnippet_updatePlaceholder (Tabstop j s tr f c # ns) (Suc i) val =
     (let r = TextmateSnippet_updatePlaceholder ns i val in (Tabstop j s tr f c # fst r, snd r))"

text \<open>
  Modelled from the spec: the parser, for the part of the dialect of section 6 that the
  examples use: literal text, \<^verbatim>\<open>$n\<close> and \<^verbatim>\<open>${n:default}\<close> with a one-digit \<open>n\<close>; index 0
  is the final tabstop.
\<close>

definition is_digit :: "char \<Rightarrow> bool" where
  "is_digit c = (c \<in> set ''0123456789'')"

definition digit_value :: "char \<Rightarrow> int" where
  "digit_value c = int (of_char c) - 48"

definition tabstop :: "char \<Rightarrow> string \<Rightarrow> node" where
  "tabstop d s = Tabstop (digit_value d) s None (digit_value d = 0) None"

function parse_nodes :: "string \<Rightarrow> node list" where
  "parse_nodes [] = []"
| "parse_nodes (c # cs) =
     (if c = CHR ''$'' then
        (case cs of
           [] \<Rightarrow> [Text [c]]
         | d # ds \<Rightarrow>
             if is_digit d then tabstop d [] # parse_nodes ds
             else if d = CHR ''{'' then
               (case ds of
                  i # col # rest \<Rightarrow>
                    if is_digit i \<and> col = CHR '':'' \<and> CHR ''}'' \<in> set rest
                    then tabstop i (takeWhile (\<lambda>x. x \<noteq> CHR ''}'') rest)
                           # parse_nodes (tl (dropWhile (\<lambda>x. x \<noteq> CHR ''}'') rest))
                    else Text [c] # parse_nodes cs
                | _ \<Rightarrow> Text [c] # parse_nodes cs)
             else Text [c] # parse_nodes cs)
      else Text [c] # parse_nodes cs)"
  by pat_completeness auto
termination
  apply (relation "measure length")
     apply (auto simp: less_Suc_eq_le)
  apply (rule le_trans [OF diff_le_self])
  apply (rule le_trans [OF length_dropWhile_le])
  apply simp
  done

text \<open>
  Modelled from the spec: \<^verbatim>\<open>SnippetParser.parse(template, insertFinalTabstop)\<close>; a final
  tabstop is appended when one is asked for and the template has none.
\<close>

definition SnippetParser_parse :: "string \<Rightarrow> bool \<Rightarrow> tree" where
  "SnippetParser_parse template insertFinalTabstop =
     (let ns = parse_nodes template
      in if insertFinalTabstop \<and> \<not> list_ex m_isFinalTabstop (concat (map node_markers ns))
         then ns @ [Tabstop 0 [] None True None] else ns)"

text \<open>
  Modelled from the spec: \<^verbatim>\<open>resolveVariables\<close>; the trees of this model have no variable
  node, so there is nothing to resolve.
\<close>

definition TextmateSnippet_resolveVariables :: "tree \<Rightarrow> (string \<Rightarrow> string option) \<Rightarrow> tree" where
  "TextmateSnippet_resolveVariables t resolver = t"

text \<open>
  Modelled from the spec: \<^verbatim>\<open>TextmateSnippet.insertSnippet\<close>, "insert a nested
  template at a given occurrence + offset". The text of the placeholder numbered \<open>i\<close> is
  split at the offset and the parsed template put between the halves; the template's
  placeholders are numbered after the enclosing index, its trailing marker last, and the
  indices above the enclosing one move up by as many. The result is the number under
  which the template's first tabstop \<^verbatim>\<open>$1\<close> is entered, the enclosing index plus one. With
  no placeholder numbered \<open>i\<close> the tree is left as it is.
\<close>

fun nth_tabstop :: "tree \<Rightarrow> nat \<Rightarrow> node option" where
  "nth_tabstop [] i = None"
| "nth_tabstop (Text s # ns) i = nth_tabstop ns i"
| "nth_tabstop (Tabstop j s tr f c # ns) 0 = Some (Tabstop j s tr f c)"
| "nth_tabstop (Tabstop j s tr f c # ns) (Suc i) = nth_tabstop ns i"

fun replace_tabstop :: "tree \<Rightarrow> nat \<Rightarrow> node list \<Rightarrow> tree" where
  "replace_tabstop [] i new = []"
| "replace_tabstop (Text s # ns) i new = Text s # replace_tabstop ns i new"
| "replace_tabstop (Tabstop j s tr f c # ns) 0 new = new @ ns"
| "replace_tabstop (Tabstop j s tr f c # ns) (Suc i) new =
     Tabstop j s tr f c # replace_tabstop ns i new"

fun renumber_nested :: "int \<Rightarrow> int \<Rightarrow> node \<Rightarrow> node" where
  "renumber_nested index maxAdded (Text s) = Text s"
| "renumber_nested index maxAdded (Tabstop j s tr f c) =
     Tabstop (if f then maxAdded + index + 1 else j + index) s tr False c"

fun renumber_outer :: "int \<Rightarrow> int \<Rightarrow> node \<Rightarrow> node" where
  "renumber_outer index totalAdd (Text s) = Text s"
| "renumber_outer index totalAdd (Tabstop j s tr f c) =
     Tabstop (if j > index then j + totalAdd else j) s tr f c"

definition TextmateSnippet_insertSnippet ::
  "tree \<Rightarrow> string \<Rightarrow> nat \<Rightarrow> int \<Rightarrow> bool \<Rightarrow> tree \<times> int" where
  "TextmateSnippet_insertSnippet t snippet i offset insertFinal =
     (case nth_tabstop t i of
        None \<Rightarrow> (t, 0)
      | Some host \<Rightarrow>
          (let nested = SnippetParser_parse snippet insertFinal;
               maxAdded = TextmateSnippet_maxIndexNumber nested;
               totalAdd = maxAdded + (if insertFinal then 1 else 0);
               new = Text (take (nat offset) (n_text host))
                       # map (renumber_nested (n_index host) maxAdded) nested
                       @ [Text (drop (nat offset) (n_text host))]
           in (replace_tabstop (map (renumber_outer (n_index host) totalAdd) t) i new,
               n_index host + 1)))"

text \<open>
  Modelled from the spec: \<^verbatim>\<open>TextDocument.positionAt\<close> of the protocol library, which
  "measures the rendered text as a virtual document, honoring embedded newlines": the
  offset is clamped to the text, the line is the number of line breaks before it and the
  character is the distance from the start of that line. \<open>line_starts\<close> lists the offsets
  at which a line begins after a line feed, a carriage return, or the pair of them.
\<close>

fun line_starts :: "nat \<Rightarrow> string \<Rightarrow> nat list" where
  "line_starts k [] = []"
| "line_starts k [c] = (if c = CHR 0x0A \<or> c = CHR 0x0D then [k + 1] else [])"
| "line_starts k (c # d # cs) =
     (if c = CHR 0x0D \<and> d = CHR 0x0A then (k + 2) # line_starts (k + 2) cs
      else if c = CHR 0x0A \<or> c = CHR 0x0D then (k + 1) # line_starts (k + 1) (d # cs)
      else line_starts (k + 1) (d # cs))"

definition TextDocument_positionAt :: "string \<Rightarrow> int \<Rightarrow> Position" where
  "TextDocument_positionAt text offset =
     (let off = nat (max (min offset (int (length text))) 0);
          starts = filter (\<lambda>k. k \<le> off) (0 # line_starts 0 text)
      in \<lparr>line = int (length starts) - 1, character = int off - int (last starts)\<rparr>)"

text \<open>
  Modelled from the spec: \<^verbatim>\<open>getChangedPosition\<close> of \<^verbatim>\<open>../util/position\<close>, "the
  position delta the edit would induce at the snippet's start". An edit that ends at or
  before the start moves it by the lines the edit adds or removes and, when the edit ends
  on the start's line, by the characters it adds or removes there; any other edit gives
  the zero delta.
\<close>

definition position_getChangedPosition :: "Position \<Rightarrow> TextEdit \<Rightarrow> Position" where
  "position_getChangedPosition start edit =
     (let r = e_range edit; t = e_newText edit
      in if line (r_end r) < line start
            \<or> (line (r_end r) = line start \<and> character (r_end r) \<le> character start)
         then
           (let lineCount = int (count_list t (CHR 0x0A)) - (line (r_end r) - line (r_start r));
                single = (line (r_start r) = line (r_end r) \<and> lineCount = 0);
                removed = (if single then character (r_end r) - character (r_start r)
                           else character (r_end r));
                added = (if single then int (length t)
                         else int (length (takeWhile (\<lambda>x. x \<noteq> CHR 0x0A) (rev t))))
            in \<lparr>line = lineCount,
                character = (if line (r_end r) = line start then added - removed else 0)\<rparr>)
         else \<lparr>line = 0, character = 0\<rparr>)"

text \<open>Modelled from the spec: the collaborators above, gathered for the model.\<close>

definition spec_env :: "tree env" where
  "spec_env =
     \<lparr>parse = SnippetParser_parse,
      resolveVariables = TextmateSnippet_resolveVariables,
      tm_placeholders = TextmateSnippet_placeholders,
      tm_toString = TextmateSnippet_toString,
      tm_offset = TextmateSnippet_offset,
      maxIndexNumber = TextmateSnippet_maxIndexNumber,
      minIndexNumber = TextmateSnippet_minIndexNumber,
      tm_updatePlaceholder = TextmateSnippet_updatePlaceholder,
      tm_insertSnippet = TextmateSnippet_insertSnippet,
      positionAt = TextDocument_positionAt,
      getChangedPosition = position_getChangedPosition\<rparr>"

section \<open>Snippets used as examples\<close>

text \<open>The spec's example \<^verbatim>\<open>foo(${1:bar}, ${2:baz})$0\<close>, anchored at (0,0).\<close>

definition snippet_foo :: "tree CocSnippet" where
  "snippet_foo =
     CocSnippet_new spec_env ''foo(${1:bar}, ${2:baz})$0'' \<lparr>line = 0, character = 0\<rparr> None"

text \<open>A snippet with sparse numbering (tabstops 1 and 3 only), anchored at (2,5).\<close>

definition snippet_sparse :: "tree CocSnippet" where
  "snippet_sparse = CocSnippet_new spec_env ''$1 to $3'' \<lparr>line = 2, character = 5\<rparr> None"

text \<open>A template whose rendered text has two lines, anchored at (2,5).\<close>

definition snippet_twolines :: "tree CocSnippet" where
  "snippet_twolines =
     CocSnippet_new spec_env (''a'' @ [CHR 0x0A] @ ''b$1'') \<lparr>line = 2, character = 5\<rparr> None"


text \<open>A tabstop and a plain mirror of it, anchored at (0,0).\<close>

definition snippet_twice :: "tree CocSnippet" where
  "snippet_twice = CocSnippet_new spec_env ''$1 and $1'' \<lparr>line = 0, character = 0\<rparr> None"

text \<open>
  A tabstop, a transform mirror of it that puts the value in brackets (as in
  \<^verbatim>\<open>$1 and ${1/(.*)/[$1]/}\<close>; both empty at first) and the final tabstop, anchored at
  (0,0), with the views derived.
\<close>

definition snippet_mirror :: "tree CocSnippet" where
  "snippet_mirror =
     update spec_env
       \<lparr>position = \<lparr>line = 0, character = 0\<rparr>,
        tmSnippet = [Tabstop 1 [] None False None, Text '' and '',
                     Tabstop 1 [] (Some (''['', '']'')) False None,
                     Tabstop 0 [] None True None],
        placeholders = []\<rparr>"

text \<open>The edit that replaces the characters \<open>a\<close> to \<open>b\<close> of line \<open>l\<close> by \<open>text\<close>.\<close>

definition edit_at :: "int \<Rightarrow> int \<Rightarrow> int \<Rightarrow> string \<Rightarrow> TextEdit" where
  "edit_at l a b text =
     \<lparr>e_range = \<lparr>r_start = \<lparr>line = l, character = a\<rparr>, r_end = \<lparr>line = l, character = b\<rparr>\<rparr>,
      e_newText = text\<rparr>"

text \<open>The snippet \<open>snippet_mirror\<close> after \<^verbatim>\<open>hello\<close> has been typed at its first tabstop.\<close>

definition snippet_hello :: "tree CocSnippet" where
  "snippet_hello =
     fst (updatePlaceholder spec_env snippet_mirror (placeholders snippet_mirror ! 0)
            (edit_at 0 0 0 ''hello''))"

section \<open>Notions used to state the properties\<close>

text \<open>
  The texts the tree returns when \<open>newText\<close> is written to the occurrences \<open>qs\<close> one after
  the other, as the \<^verbatim>\<open>forEach\<close> of \<^verbatim>\<open>updatePlaceholder\<close> does: the freshly recomputed
  text of each.
\<close>

fun recomputed :: "'t env \<Rightarrow> string \<Rightarrow> 't \<Rightarrow> CocSnippetPlaceholder list \<Rightarrow> string list" where
  "recomputed env newText t [] = []"
| "recomputed env newText t (q # qs) =
     (let r = tm_updatePlaceholder env t (p_id q) newText
      in snd r # recomputed env newText (fst r) qs)"



section \<open>Re-derivation\<close>

lemma Position_collapse [simp]:
  "\<lparr>line = line p, character = character p\<rparr> = (p::Position)"
  by (cases p) simp

lemma update_fields [simp]:
  "tmSnippet (update env s) = tmSnippet s" "position (update env s) = position s"
  by (simp_all add: update_def Let_def)

lemma update_placeholders:
  "placeholders (update env s) =
     map (update_view env (tmSnippet s) (position s) (tm_toString env (tmSnippet s)))
       (enumerate 0 (tm_placeholders env (tmSnippet s)))"
  by (simp add: update_def Let_def)

lemma update_overwrites [simp]: "update env (s\<lparr>placeholders := ps\<rparr>) = update env s"
  by (simp add: update_def Let_def)

text \<open>Deriving the views twice with no mutation in between changes nothing.\<close>

lemma update_idem [simp]: "update env (update env s) = update env s"
  by (simp add: update_def Let_def)

lemma update_position_update [simp]:
  "update env ((update env s)\<lparr>position := p\<rparr>) = update env (s\<lparr>position := p\<rparr>)"
  by (simp add: update_def Let_def)

lemma update_tmSnippet_update [simp]:
  "update env ((update env s)\<lparr>tmSnippet := t\<rparr>) = update env (s\<lparr>tmSnippet := t\<rparr>)"
  by (simp add: update_def Let_def)

text \<open>In every reachable state the views are the ones derived from the tree and the anchor.\<close>

lemma reachable_update: "reachable env s \<Longrightarrow> update env s = s"
proof (induction rule: reachable.induct)
  case (constructed snippetString pos variableResolver)
  show ?case by (simp add: CocSnippet_new_def Let_def)
next
  case (adjustedPosition s characterCount lineCount)
  show ?case by (simp add: adjustPosition_def)
next
  case (adjustedTextEdit s edit)
  then show ?case by (simp add: adjustTextEdit_def adjustPosition_def Let_def)
next
  case (insertedSnippet s placeholder snippet pos)
  show ?case by (simp add: insertSnippet_def Let_def)
next
  case (updatedPlaceholder s placeholder edit)
  show ?case by (simp add: updatePlaceholder_def setPlaceholderValue_def Let_def)
qed

lemma reachable_placeholders:
  assumes "reachable env s"
  shows "placeholders s =
     map (update_view env (tmSnippet s) (position s) (tm_toString env (tmSnippet s)))
       (enumerate 0 (tm_placeholders env (tmSnippet s)))"
  using update_placeholders [of env s] reachable_update [OF assms] by simp


text \<open>
  C2: in every reachable state (after construction and after every mutating operation) the
  range of the view numbered \<open>i\<close> comes from the position of the node's offset in the
  rendered text: the start line is the anchor's line plus the offset's line; the start
  character is the anchor's character plus the offset's character when the offset is on
  the first rendered line, the offset's character alone on a later line; the end is on the
  start's line, \<open>length value\<close> characters after the start, so never before the start.
\<close>

theorem update_ranges_from_offsets:
  assumes "reachable env s" and "i < length (placeholders s)"
  shows "let v = placeholders s ! i;
             pos = positionAt env (toString env s) (tm_offset env (tmSnippet s) i)
         in line (r_start (p_range v)) = line (position s) + line pos
          \<and> character (r_start (p_range v)) =
              (if line pos = 0 then character (position s) + character pos else character pos)
          \<and> line (r_end (p_range v)) = line (r_start (p_range v))
          \<and> character (r_end (p_range v))
              = character (r_start (p_range v)) + int (length (p_value v))
          \<and> character (r_start (p_range v)) \<le> character (r_end (p_range v))"
proof -
  let ?ms = "tm_placeholders env (tmSnippet s)"
  have ps: "placeholders s =
     map (update_view env (tmSnippet s) (position s) (tm_toString env (tmSnippet s)))
       (enumerate 0 ?ms)"
    by (rule reachable_placeholders [OF assms(1)])
  with assms(2) have i: "i < length ?ms"
    by simp
  have "placeholders s ! i =
      update_view env (tmSnippet s) (position s) (tm_toString env (tmSnippet s)) (i, ?ms ! i)"
    using i by (simp add: ps nth_enumerate_eq)
  then show ?thesis
    by (simp add: update_view_def Let_def toString_def)
qed

theorem update_ranges_from_offsets_witness:
  "reachable spec_env snippet_twolines \<and> 0 < length (placeholders snippet_twolines)
   \<and> (let v = placeholders snippet_twolines ! 0;
           pos = positionAt spec_env (toString spec_env snippet_twolines)
                   (tm_offset spec_env (tmSnippet snippet_twolines) 0)
       in line (r_start (p_range v)) = line (position snippet_twolines) + line pos
        \<and> character (r_start (p_range v)) =
            (if line pos = 0 then character (position snippet_twolines) + character pos
             else character pos)
        \<and> line (r_end (p_range v)) = line (r_start (p_range v))
        \<and> character (r_end (p_range v))
            = character (r_start (p_range v)) + int (length (p_value v))
        \<and> character (r_start (p_range v)) \<le> character (r_end (p_range v)))
   \<and> p_range (placeholders snippet_twolines ! 0)
        = \<lparr>r_start = \<lparr>line = 3, character = 1\<rparr>, r_end = \<lparr>line = 3, character = 1\<rparr>\<rparr>"
proof -
  have r: "reachable spec_env snippet_twolines"
    unfolding snippet_twolines_def by (rule reachable.constructed)
  have l: "0 < length (placeholders snippet_twolines)"
    by code_simp
  have c: "p_range (placeholders snippet_twolines ! 0)
        = \<lparr>r_start = \<lparr>line = 3, character = 1\<rparr>, r_end = \<lparr>line = 3, character = 1\<rparr>\<rparr>"
    by code_simp
  from update_ranges_from_offsets [OF r l] r l c show ?thesis
    by (intro conjI) assumption+
qed

section \<open>Navigation\<close>

lemma getPrevPlaceholder_enough:
  "index = int k \<Longrightarrow> \<exists>r. getPrevPlaceholder env (Suc k) s index = Some r"
  by (induction k arbitrary: index) (auto split: option.splits)

lemma getNextPlaceholder_enough:
  "maxIndexNumber env (tmSnippet s) - index = int k
     \<Longrightarrow> \<exists>r. getNextPlaceholder env (Suc k) s index = Some r"
proof (induction k arbitrary: index)
  case 0
  then show ?case by simp
next
  case (Suc k)
  from Suc.prems have "maxIndexNumber env (tmSnippet s) - (index + 1) = int k"
    by simp
  from Suc.IH [OF this]
  obtain r where "getNextPlaceholder env (Suc k) s (index + 1) = Some r" ..
  then show ?case
    by (cases "getPlaceholder s (index + 1)") (simp_all add: Let_def)
qed

text \<open>
  A call that returns within \<open>n\<close> nested calls returns the same value within any larger
  number of them.
\<close>

lemma getPrevPlaceholder_more:
  "getPrevPlaceholder env n s index = Some r \<Longrightarrow> getPrevPlaceholder env (n + m) s index = Some r"
  by (induction n arbitrary: index) (auto split: option.splits if_splits)

lemma getNextPlaceholder_more:
  "getNextPlaceholder env n s index = Some r \<Longrightarrow> getNextPlaceholder env (n + m) s index = Some r"
  by (induction n arbitrary: index) (auto simp: Let_def split: option.splits if_splits)

text \<open>
  C1, as the code has it. \<^verbatim>\<open>getPrevPlaceholder(0)\<close> returns \<^verbatim>\<open>lastPlaceholder\<close>: the view
  that \<^verbatim>\<open>getPlaceholder\<close> finds for the tree's maximum tabstop index, whether or not it is
  the final tabstop. \<^verbatim>\<open>getNextPlaceholder\<close> at the maximum index returns
  \<^verbatim>\<open>finalPlaceholder\<close>: the first view whose \<^verbatim>\<open>isFinalTabstop\<close> flag is true (nothing
  when no view has it). Both return in their first call.
\<close>

theorem getPrevPlaceholder_zero_getNextPlaceholder_max:
  "getPrevPlaceholder env (Suc n) s 0
     = Some (getPlaceholder s (maxIndexNumber env (tmSnippet s)))
   \<and> getNextPlaceholder env (Suc n) s (maxIndexNumber env (tmSnippet s))
     = Some (find p_isFinalTabstop (placeholders s))"
  by (simp add: lastPlaceholder_def finalPlaceholder_def)

text \<open>
  C1 as stated fails: on \<^verbatim>\<open>foo(${1:bar}, ${2:baz})$0\<close>, \<^verbatim>\<open>getPrevPlaceholder(0)\<close> returns
  the view of tabstop 2 (\<^verbatim>\<open>baz\<close>), whose \<^verbatim>\<open>isFinalTabstop\<close> is false, while the final
  tabstop is the view of \<^verbatim>\<open>$0\<close>.
\<close>

theorem getPrevPlaceholder_zero_not_final:
  "map_option (map_option p_index) (getPrevPlaceholder spec_env (Suc 0) snippet_foo 0)
     = Some (Some 2)
   \<and> map_option (map_option p_isFinalTabstop) (getPrevPlaceholder spec_env (Suc 0) snippet_foo 0)
     = Some (Some False)
   \<and> map_option p_index (finalPlaceholder snippet_foo) = Some 0
   \<and> map_option p_isFinalTabstop (finalPlaceholder snippet_foo) = Some True"
  by code_simp

text \<open>
  C7: for a tabstop index between 0 and the tree's maximum index,
  \<^verbatim>\<open>getPrevPlaceholder(index)\<close> returns within \<open>index + 1\<close> calls (at most \<open>index\<close> steps
  down to 0) and \<^verbatim>\<open>getNextPlaceholder(index)\<close> within \<open>max - index + 1\<close> calls (at most
  \<open>max - index\<close> steps up to the maximum), whatever indices have an occurrence.
\<close>

theorem navigation_terminates:
  assumes "0 \<le> index" and "index \<le> maxIndexNumber env (tmSnippet s)"
  shows "(\<exists>r. getPrevPlaceholder env (Suc (nat index)) s index = Some r)
         \<and> (\<exists>r. getNextPlaceholder env
                   (Suc (nat (maxIndexNumber env (tmSnippet s) - index))) s index = Some r)"
proof
  from assms(1) have "index = int (nat index)"
    by simp
  then show "\<exists>r. getPrevPlaceholder env (Suc (nat index)) s index = Some r"
    by (rule getPrevPlaceholder_enough)
next
  from assms(2)
  have "maxIndexNumber env (tmSnippet s) - index
          = int (nat (maxIndexNumber env (tmSnippet s) - index))"
    by simp
  then show "\<exists>r. getNextPlaceholder env
                    (Suc (nat (maxIndexNumber env (tmSnippet s) - index))) s index = Some r"
    by (rule getNextPlaceholder_enough)
qed

theorem navigation_terminates_witness:
  "(0::int) \<le> 1 \<and> 1 \<le> maxIndexNumber spec_env (tmSnippet snippet_sparse)
   \<and> (\<exists>r. getPrevPlaceholder spec_env (Suc (nat 1)) snippet_sparse 1 = Some r)
   \<and> (\<exists>r. getNextPlaceholder spec_env
             (Suc (nat (maxIndexNumber spec_env (tmSnippet snippet_sparse) - 1)))
             snippet_sparse 1 = Some r)
   \<and> getNextPlaceholder spec_env 1 snippet_sparse 1 = None
   \<and> map_option (map_option p_index) (getNextPlaceholder spec_env 2 snippet_sparse 1)
       = Some (Some 3)
   \<and> getPrevPlaceholder spec_env 1 snippet_sparse 3 = None
   \<and> map_option (map_option p_index) (getPrevPlaceholder spec_env 2 snippet_sparse 3)
       = Some (Some 1)"
proof -
  have h1: "(0::int) \<le> 1"
    by simp
  have h2: "1 \<le> maxIndexNumber spec_env (tmSnippet snippet_sparse)"
    by code_simp
  have c: "getNextPlaceholder spec_env 1 snippet_sparse 1 = None
     \<and> map_option (map_option p_index) (getNextPlaceholder spec_env 2 snippet_sparse 1)
         = Some (Some 3)
     \<and> getPrevPlaceholder spec_env 1 snippet_sparse 3 = None
     \<and> map_option (map_option p_index) (getPrevPlaceholder spec_env 2 snippet_sparse 3)
         = Some (Some 1)"
    by code_simp
  note t = navigation_terminates [OF h1 h2]
  from t [THEN conjunct1] t [THEN conjunct2] h1 h2 c show ?thesis
    by (intro conjI) (assumption | erule conjunct1 | erule conjunct2 [THEN conjunct1]
          | erule conjunct2 [THEN conjunct2, THEN conjunct1]
          | erule conjunct2 [THEN conjunct2, THEN conjunct2])+
qed

section \<open>Anchor adjustment\<close>

lemma ulp_exponent_small: "m < 2 ^ 53 \<Longrightarrow> ulp_exponent m = 0"
  by (subst ulp_exponent.simps) simp

text \<open>Below \<open>2^53\<close> in magnitude every integer is a double, and a sum that stays there is exact.\<close>

lemma round_double_exact: "\<bar>x\<bar> < 2 ^ 53 \<Longrightarrow> round_double x = x"
  by (simp add: round_double_def Let_def ulp_exponent_small mult_sgn_abs)

lemma number_add_exact: "\<bar>a + b\<bar> < 2 ^ 53 \<Longrightarrow> number_add a b = a + b"
  by (simp add: number_add_def round_double_exact)

text \<open>
  C8, within the integers that JavaScript adds exactly: in a reachable state whose anchor,
  and the anchor shifted by \<open>(dc, dl)\<close>, have lines and characters below \<open>2^53\<close> in
  magnitude, \<^verbatim>\<open>adjustPosition(dc, dl)\<close> followed by \<^verbatim>\<open>adjustPosition(-dc, -dl)\<close> gives back
  the very state it started from: the anchor, the tree and every view (id, range, value
  and the other fields).
\<close>

theorem adjustPosition_inverse:
  assumes "reachable env s"
    and "\<bar>line (position s)\<bar> < 2 ^ 53" and "\<bar>character (position s)\<bar> < 2 ^ 53"
    and "\<bar>line (position s) + dl\<bar> < 2 ^ 53" and "\<bar>character (position s) + dc\<bar> < 2 ^ 53"
  shows "adjustPosition env (adjustPosition env s dc dl) (- dc) (- dl) = s"
proof -
  have l: "number_add (number_add (line (position s)) dl) (- dl) = line (position s)"
    using assms(2,4) by (simp add: number_add_exact)
  have c: "number_add (number_add (character (position s)) dc) (- dc) = character (position s)"
    using assms(3,5) by (simp add: number_add_exact)
  have "adjustPosition env (adjustPosition env s dc dl) (- dc) (- dl)
          = update env (s\<lparr>position := position s\<rparr>)"
    by (simp add: adjustPosition_def l c)
  also have "\<dots> = update env s"
    by simp
  finally show ?thesis
    using reachable_update [OF assms(1)] by simp
qed

theorem adjustPosition_inverse_witness:
  "reachable spec_env snippet_sparse
   \<and> \<bar>line (position snippet_sparse)\<bar> < 2 ^ 53 \<and> \<bar>character (position snippet_sparse)\<bar> < 2 ^ 53
   \<and> \<bar>line (position snippet_sparse) + (- 1)\<bar> < 2 ^ 53
   \<and> \<bar>character (position snippet_sparse) + 3\<bar> < 2 ^ 53
   \<and> adjustPosition spec_env (adjustPosition spec_env snippet_sparse 3 (- 1)) (- 3) (- (- 1))
       = snippet_sparse
   \<and> position (adjustPosition spec_env snippet_sparse 3 (- 1)) = \<lparr>line = 1, character = 8\<rparr>"
proof -
  have r: "reachable spec_env snippet_sparse"
    unfolding snippet_sparse_def by (rule reachable.constructed)
  have p: "position snippet_sparse = \<lparr>line = 2, character = 5\<rparr>"
    by code_simp
  have h1: "\<bar>line (position snippet_sparse)\<bar> < 2 ^ 53"
    and h2: "\<bar>character (position snippet_sparse)\<bar> < 2 ^ 53"
    and h3: "\<bar>line (position snippet_sparse) + (- 1)\<bar> < 2 ^ 53"
    and h4: "\<bar>character (position snippet_sparse) + 3\<bar> < 2 ^ 53"
    by (simp_all add: p)
  have c: "position (adjustPosition spec_env snippet_sparse 3 (- 1))
             = \<lparr>line = 1, character = 8\<rparr>"
    by code_simp
  from adjustPosition_inverse [OF r h1 h2 h3 h4] r h1 h2 h3 h4 c show ?thesis
    by (intro conjI) assumption+
qed

text \<open>
  C8 as stated, for all integer deltas, fails: the anchor of the example is (2,5), and
  \<open>5 + 2^53\<close> is not a double, so \<^verbatim>\<open>adjustPosition(2^53, 0)\<close> leaves the character
  \<open>2^53 + 4\<close>, and \<^verbatim>\<open>adjustPosition(-2^53, 0)\<close> then leaves 4: the anchor, and with it the
  start of the first view's range, has moved by one.
\<close>

theorem adjustPosition_inverse_rounds:
  "position snippet_sparse = \<lparr>line = 2, character = 5\<rparr>
   \<and> position (adjustPosition spec_env snippet_sparse 9007199254740992 0)
       = \<lparr>line = 2, character = 9007199254740996\<rparr>
   \<and> position (adjustPosition spec_env
                  (adjustPosition spec_env snippet_sparse 9007199254740992 0)
                  (- 9007199254740992) (- 0))
       = \<lparr>line = 2, character = 4\<rparr>
   \<and> r_start (p_range (placeholders snippet_sparse ! 0)) = \<lparr>line = 2, character = 5\<rparr>
   \<and> r_start (p_range (placeholders
         (adjustPosition spec_env
            (adjustPosition spec_env snippet_sparse 9007199254740992 0)
            (- 9007199254740992) (- 0)) ! 0))
       = \<lparr>line = 2, character = 4\<rparr>"
  by code_simp

text \<open>
  C9: in a reachable state, \<^verbatim>\<open>adjustPosition\<close> leaves the rendered text and the tree as
  they are, and every view keeps its index, id, value, final-tabstop flag, transform flag
  and choice; only the anchor and what is computed from it (the ranges and \<^verbatim>\<open>line\<close>)
  may differ.
\<close>

theorem adjustPosition_content_unchanged:
  assumes "reachable env s"
  shows "toString env (adjustPosition env s dChar dLine) = toString env s
       \<and> tmSnippet (adjustPosition env s dChar dLine) = tmSnippet s
       \<and> map (\<lambda>v. (p_index v, p_id v, p_value v, p_isFinalTabstop v, p_transform v, p_choice v))
            (placeholders (adjustPosition env s dChar dLine))
          = map (\<lambda>v. (p_index v, p_id v, p_value v, p_isFinalTabstop v, p_transform v, p_choice v))
            (placeholders s)"
proof -
  have "map (\<lambda>v. (p_index v, p_id v, p_value v, p_isFinalTabstop v, p_transform v, p_choice v))
            (placeholders (adjustPosition env s dChar dLine))
          = map (\<lambda>v. (p_index v, p_id v, p_value v, p_isFinalTabstop v, p_transform v, p_choice v))
            (placeholders s)"
    by (subst reachable_placeholders [OF assms])
       (simp add: adjustPosition_def update_placeholders update_view_def Let_def)
  then show ?thesis
    by (simp add: adjustPosition_def toString_def)
qed

theorem adjustPosition_content_unchanged_witness:
  "reachable spec_env snippet_foo
   \<and> toString spec_env (adjustPosition spec_env snippet_foo 3 1) = toString spec_env snippet_foo
   \<and> tmSnippet (adjustPosition spec_env snippet_foo 3 1) = tmSnippet snippet_foo
   \<and> map (\<lambda>v. (p_index v, p_id v, p_value v, p_isFinalTabstop v, p_transform v, p_choice v))
        (placeholders (adjustPosition spec_env snippet_foo 3 1))
       = map (\<lambda>v. (p_index v, p_id v, p_value v, p_isFinalTabstop v, p_transform v, p_choice v))
        (placeholders snippet_foo)
   \<and> map p_range (placeholders (adjustPosition spec_env snippet_foo 3 1))
       = [\<lparr>r_start = \<lparr>line = 1, character = 7\<rparr>, r_end = \<lparr>line = 1, character = 10\<rparr>\<rparr>,
          \<lparr>r_start = \<lparr>line = 1, character = 12\<rparr>, r_end = \<lparr>line = 1, character = 15\<rparr>\<rparr>,
          \<lparr>r_start = \<lparr>line = 1, character = 16\<rparr>, r_end = \<lparr>line = 1, character = 16\<rparr>\<rparr>]"
proof -
  have r: "reachable spec_env snippet_foo"
    unfolding snippet_foo_def by (rule reachable.constructed)
  have c: "map p_range (placeholders (adjustPosition spec_env snippet_foo 3 1))
       = [\<lparr>r_start = \<lparr>line = 1, character = 7\<rparr>, r_end = \<lparr>line = 1, character = 10\<rparr>\<rparr>,
          \<lparr>r_start = \<lparr>line = 1, character = 12\<rparr>, r_end = \<lparr>line = 1, character = 15\<rparr>\<rparr>,
          \<lparr>r_start = \<lparr>line = 1, character = 16\<rparr>, r_end = \<lparr>line = 1, character = 16\<rparr>\<rparr>]"
    by code_simp
  note t = adjustPosition_content_unchanged [OF r, of 3 1]
  from t [THEN conjunct1] t [THEN conjunct2, THEN conjunct1] t [THEN conjunct2, THEN conjunct2]
    r c
  show ?thesis
    by (intro conjI) assumption+
qed

text \<open>
  C6: with \<open>changed\<close> the delta that \<^verbatim>\<open>getChangedPosition\<close> gives for the snippet's start
  (the anchor) and the edit, \<^verbatim>\<open>adjustTextEdit\<close> returns false with the state unchanged
  exactly when both components of \<open>changed\<close> are zero; otherwise its result is the state
  \<^verbatim>\<open>adjustPosition(changed.character, changed.line)\<close> leaves, whose anchor is the old one
  with that delta added to it (by JavaScript's addition), and true.
\<close>

theorem adjustTextEdit_zero_delta:
  "let changed = getChangedPosition env (position s) edit;
       r = adjustTextEdit env s edit
   in ((\<not> snd r \<and> fst r = s) = (line changed = 0 \<and> character changed = 0))
    \<and> (\<not> (line changed = 0 \<and> character changed = 0) \<longrightarrow>
          r = (adjustPosition env s (character changed) (line changed), True)
          \<and> position (fst r) = \<lparr>line = number_add (line (position s)) (line changed),
                                   character = number_add (character (position s))
                                                 (character changed)\<rparr>)"
  by (simp add: adjustTextEdit_def snippet_range_def Let_def adjustPosition_def)

theorem adjustTextEdit_zero_delta_witness:
  "adjustTextEdit spec_env snippet_sparse (edit_at 2 0 0 ''ab'')
     = (adjustPosition spec_env snippet_sparse 2 0, True)
   \<and> position (fst (adjustTextEdit spec_env snippet_sparse (edit_at 2 0 0 ''ab'')))
     = \<lparr>line = 2, character = 7\<rparr>
   \<and> adjustTextEdit spec_env snippet_sparse (edit_at 2 7 7 ''ab'') = (snippet_sparse, False)"
proof -
  have d1: "getChangedPosition spec_env (position snippet_sparse) (edit_at 2 0 0 ''ab'')
              = \<lparr>line = 0, character = 2\<rparr>"
    by code_simp
  have d2: "getChangedPosition spec_env (position snippet_sparse) (edit_at 2 7 7 ''ab'')
              = \<lparr>line = 0, character = 0\<rparr>"
    by code_simp
  from adjustTextEdit_zero_delta [of spec_env snippet_sparse "edit_at 2 0 0 ''ab''"] d1
  have a: "adjustTextEdit spec_env snippet_sparse (edit_at 2 0 0 ''ab'')
             = (adjustPosition spec_env snippet_sparse 2 0, True)"
    by (simp add: Let_def)
  have a': "position (fst (adjustTextEdit spec_env snippet_sparse (edit_at 2 0 0 ''ab'')))
             = \<lparr>line = 2, character = 7\<rparr>"
    by code_simp
  from adjustTextEdit_zero_delta [of spec_env snippet_sparse "edit_at 2 7 7 ''ab''"] d2
  have b: "adjustTextEdit spec_env snippet_sparse (edit_at 2 7 7 ''ab'') = (snippet_sparse, False)"
    by (simp add: Let_def prod_eq_iff)
  from a a' b show ?thesis
    by simp
qed

section \<open>Nested insertion\<close>






section \<open>Targeted edits\<close>

lemma foldl_updateOthers_step:
  "snd (foldl (updateOthers_step env newText) (t, acc) qs)
     = acc @ map (\<lambda>(q, text). \<lparr>e_range = p_range q, e_newText = text\<rparr>)
               (filter (\<lambda>(q, text). text \<noteq> p_value q) (zip qs (recomputed env newText t qs)))"
  by (induction qs arbitrary: t acc) (simp_all add: updateOthers_step_def Let_def)



text \<open>
  C4, with the ranges the code uses. Let \<open>others\<close> be the views, derived after the new text
  of the edited occurrence has been written to the tree, that have the edited view's index
  and another id, and \<open>texts\<close> the texts the tree recomputes for them in turn.
  \<^verbatim>\<open>updatePlaceholder\<close> returns, in that order, one edit for each of the \<open>others\<close> whose
  recomputed text differs from the value its view shows, made of that view's range (the
  occurrence's place once the edit of the first occurrence is applied) and the recomputed
  text, and nothing else; with no other occurrence the list is empty.
\<close>

theorem updatePlaceholder_synthetic_edits:
  "let newText = updatePlaceholder_newText placeholder edit;
       s1 = setPlaceholderValue env s (p_id placeholder) newText;
       others = filter (\<lambda>q. p_index q = p_index placeholder \<and> p_id q \<noteq> p_id placeholder)
                  (placeholders s1);
       texts = recomputed env newText (tmSnippet s1) others
   in snd (updatePlaceholder env s placeholder edit)
        = map (\<lambda>(q, text). \<lparr>e_range = p_range q, e_newText = text\<rparr>)
            (filter (\<lambda>(q, text). text \<noteq> p_value q) (zip others texts))
    \<and> (others = [] \<longrightarrow> snd (updatePlaceholder env s placeholder edit) = [])"
  by (simp add: updatePlaceholder_def Let_def foldl_updateOthers_step)

theorem updatePlaceholder_synthetic_edits_witness:
  "snd (updatePlaceholder spec_env snippet_hello (placeholders snippet_hello ! 0)
          (edit_at 0 1 3 ''X''))
     = [edit_at 0 9 16 ''[hXlo]'']
   \<and> snd (updatePlaceholder spec_env snippet_foo (placeholders snippet_foo ! 0)
            (edit_at 0 4 7 ''barn''))
     = []"
proof -
  let ?p = "placeholders snippet_hello ! 0" and ?e = "edit_at 0 1 3 ''X''"
  let ?s1 = "setPlaceholderValue spec_env snippet_hello (p_id ?p) (updatePlaceholder_newText ?p ?e)"
  let ?others = "filter (\<lambda>q. p_index q = p_index ?p \<and> p_id q \<noteq> p_id ?p) (placeholders ?s1)"
  let ?q = "placeholders snippet_foo ! 0" and ?f = "edit_at 0 4 7 ''barn''"
  have a: "map (\<lambda>(q, text). \<lparr>e_range = p_range q, e_newText = text\<rparr>)
             (filter (\<lambda>(q, text). text \<noteq> p_value q)
                (zip ?others
                   (recomputed spec_env (updatePlaceholder_newText ?p ?e) (tmSnippet ?s1) ?others)))
          = [edit_at 0 9 16 ''[hXlo]'']"
    by code_simp
  have b: "filter (\<lambda>q. p_index q = p_index ?q \<and> p_id q \<noteq> p_id ?q)
             (placeholders (setPlaceholderValue spec_env snippet_foo (p_id ?q)
                (updatePlaceholder_newText ?q ?f))) = []"
    by code_simp
  from updatePlaceholder_synthetic_edits [of ?p ?e spec_env snippet_hello] a
  have "snd (updatePlaceholder spec_env snippet_hello ?p ?e) = [edit_at 0 9 16 ''[hXlo]'']"
    by (simp only: Let_def)
  moreover
  from updatePlaceholder_synthetic_edits [of ?q ?f spec_env snippet_foo] b
  have "snd (updatePlaceholder spec_env snippet_foo ?q ?f) = []"
    by (simp add: Let_def)
  ultimately show ?thesis
    by simp
qed

text \<open>
  C4 as stated, with each edit on the occurrence's range before the call, fails: in
  \<^verbatim>\<open>$1 and $1\<close> the mirror is at (0,5)-(0,5); typing \<^verbatim>\<open>X\<close> at the first tabstop returns one
  edit for it, at (0,6)-(0,6), the mirror's place after the \<^verbatim>\<open>X\<close>.
\<close>

theorem updatePlaceholder_edit_range_shifted:
  "p_range (placeholders snippet_twice ! 1) = e_range (edit_at 0 5 5 ''X'')
   \<and> snd (updatePlaceholder spec_env snippet_twice (placeholders snippet_twice ! 0)
            (edit_at 0 0 0 ''X''))
     = [edit_at 0 6 6 ''X'']"
  by code_simp









section \<open>The tree modelled from the spec\<close>





lemma spec_env_fields [simp]:
  "tm_placeholders spec_env = TextmateSnippet_placeholders"
  "tm_toString spec_env = TextmateSnippet_toString"
  "tm_offset spec_env = TextmateSnippet_offset"
  "tm_updatePlaceholder spec_env = TextmateSnippet_updatePlaceholder"
  by (simp_all add: spec_env_def)









section \<open>Nested insertion on the tree modelled from the spec\<close>

lemma node_toString_renumber_outer [simp]: "node_toString (renumber_outer a b n) = node_toString n"
  by (cases n) simp_all

lemma node_toString_renumber_nested [simp]: "node_toString (renumber_nested a b n) = node_toString n"
  by (cases n) simp_all

lemma toString_renumber_outer [simp]:
  "TextmateSnippet_toString (map (renumber_outer a b) t) = TextmateSnippet_toString t"
  by (simp add: TextmateSnippet_toString_def comp_def)

lemma toString_renumber_nested [simp]:
  "TextmateSnippet_toString (map (renumber_nested a b) t) = TextmateSnippet_toString t"
  by (simp add: TextmateSnippet_toString_def comp_def)

lemma length_markers_renumber_nested [simp]:
  "length (TextmateSnippet_placeholders (map (renumber_nested a b) t))
     = length (TextmateSnippet_placeholders t)"
proof (induction t)
  case Nil
  then show ?case by simp
next
  case (Cons n t)
  then show ?case by (cases n) (simp_all add: TextmateSnippet_placeholders_def)
qed

lemma offset_renumber_outer [simp]:
  "TextmateSnippet_offset (map (renumber_outer a b) t) i = TextmateSnippet_offset t i"
  by (induction t i rule: TextmateSnippet_offset.induct) simp_all


lemma offset_nonneg [simp]: "0 \<le> TextmateSnippet_offset t i"
  by (induction t i rule: TextmateSnippet_offset.induct) simp_all



lemma length_markers_renumber_outer [simp]:
  "length (TextmateSnippet_placeholders (map (renumber_outer a b) t))
     = length (TextmateSnippet_placeholders t)"
proof (induction t)
  case Nil
  then show ?case by simp
next
  case (Cons n t)
  then show ?case by (cases n) (simp_all add: TextmateSnippet_placeholders_def)
qed


lemma markers_Text [simp]:
  "TextmateSnippet_placeholders (Text x # xs) = TextmateSnippet_placeholders xs"
  "TextmateSnippet_placeholders [] = []"
  by (simp_all add: TextmateSnippet_placeholders_def)





end
